theory Spec2Isabelle
  imports Complex_Main
begin

section \<open>Values decoded from JSON\<close>

text \<open>
  The reducer of \<^verbatim>\<open>src/docker/reduce_results.py\<close> works on whatever \<^verbatim>\<open>json.load\<close>
  returns: \<^verbatim>\<open>None\<close>, booleans, integers, floats, strings, lists and dicts. A dict is
  kept as the list of its items in insertion order (the keys of a decoded dict are
  distinct). A float is kept by its value; the reducer never computes with one, it only
  compares dictionary keys and tests truthiness.
\<close>

datatype pyfloat = Finite rat | PosInf | NegInf | NaN

datatype json =
    JNull
  | JBool bool
  | JInt int
  | JFloat pyfloat
  | JStr string
  | JList "json list"
  | JDict "(string \<times> json) list"

datatype error =
    OSError string
  | JSONDecodeError
  | TypeError
  | AttributeError
  | KeyError

datatype level = INFO | WARNING | ERROR

type_synonym log_entry = "level \<times> string"

text \<open>The summary dictionary built at lines 33-37; \<open>vulnerability_summary\<close> is a key
  that is only present once a package scan entry was processed.\<close>

record summary =
  total_findings :: int
  findings_by_rule :: "(json \<times> int) list"
  all_matches :: "json list"
  vulnerability_summary :: "(string \<times> json) list option"

text \<open>Library functions the module calls and does not define: \<^verbatim>\<open>json.loads\<close> (also
  behind \<^verbatim>\<open>json.load\<close>), \<^verbatim>\<open>json.dump(summary, f, indent=2)\<close>, \<^verbatim>\<open>str()\<close> as applied by
  f-strings to a decoded value, and \<^verbatim>\<open>str(e)\<close> of an exception.\<close>

record pylib =
  json_loads :: "string \<Rightarrow> error + json"
  json_dump :: "summary \<Rightarrow> string"
  py_str :: "json \<Rightarrow> string"
  exc_str :: "error \<Rightarrow> string"

text \<open>What the function can observe and change outside itself: the files (opening a
  path either yields its text or fails), the directories made, the log, and the clock
  as formatted by \<^verbatim>\<open>strftime("%Y%m%d%H%M%S")\<close>.\<close>

record world =
  files :: "string \<Rightarrow> error + string"
  dirs :: "string set"
  logs :: "log_entry list"
  now :: string

section \<open>Python operations on decoded values\<close>

definition is_dict :: "json \<Rightarrow> bool" where
  "is_dict v = (case v of JDict _ \<Rightarrow> True | _ \<Rightarrow> False)"

definition is_str :: "json \<Rightarrow> bool" where
  "is_str v = (case v of JStr _ \<Rightarrow> True | _ \<Rightarrow> False)"

text \<open>\<^verbatim>\<open>d.get(k, default)\<close> on a dict.\<close>

definition dict_get :: "(string \<times> json) list \<Rightarrow> string \<Rightarrow> json \<Rightarrow> json" where
  "dict_get kvs k dflt = (case map_of kvs k of Some v \<Rightarrow> v | None \<Rightarrow> dflt)"

text \<open>\<^verbatim>\<open>x.get(k, default)\<close> on any decoded value: only a dict has the method.\<close>

definition py_get :: "json \<Rightarrow> string \<Rightarrow> json \<Rightarrow> error + json" where
  "py_get x k dflt = (case x of JDict kvs \<Rightarrow> Inr (dict_get kvs k dflt) | _ \<Rightarrow> Inl AttributeError)"

text \<open>\<^verbatim>\<open>x[k]\<close> on a dict.\<close>

definition py_getitem :: "json \<Rightarrow> string \<Rightarrow> error + json" where
  "py_getitem x k =
     (case x of
        JDict kvs \<Rightarrow> (case map_of kvs k of Some v \<Rightarrow> Inr v | None \<Rightarrow> Inl KeyError)
      | _ \<Rightarrow> Inl TypeError)"

text \<open>\<^verbatim>\<open>len(x)\<close>.\<close>

definition py_len :: "json \<Rightarrow> error + int" where
  "py_len x =
     (case x of
        JStr s \<Rightarrow> Inr (int (length s))
      | JList xs \<Rightarrow> Inr (int (length xs))
      | JDict kvs \<Rightarrow> Inr (int (length kvs))
      | _ \<Rightarrow> Inl TypeError)"

text \<open>The elements a \<^verbatim>\<open>for\<close> loop sees: the items of a list, the characters of a
  string, the keys of a dict.\<close>

definition py_iter :: "json \<Rightarrow> error + json list" where
  "py_iter x =
     (case x of
        JStr s \<Rightarrow> Inr (map (\<lambda>c. JStr [c]) s)
      | JList xs \<Rightarrow> Inr xs
      | JDict kvs \<Rightarrow> Inr (map (\<lambda>kv. JStr (fst kv)) kvs)
      | _ \<Rightarrow> Inl TypeError)"

text \<open>\<^verbatim>\<open>x.items()\<close>.\<close>

definition py_items :: "json \<Rightarrow> error + (string \<times> json) list" where
  "py_items x = (case x of JDict kvs \<Rightarrow> Inr kvs | _ \<Rightarrow> Inl AttributeError)"

text \<open>Truth value of a decoded value in an \<^verbatim>\<open>if\<close>.\<close>

definition py_truthy :: "json \<Rightarrow> bool" where
  "py_truthy x =
     (case x of
        JNull \<Rightarrow> False
      | JBool b \<Rightarrow> b
      | JInt i \<Rightarrow> i \<noteq> 0
      | JFloat f \<Rightarrow> f \<noteq> Finite 0
      | JStr s \<Rightarrow> s \<noteq> []
      | JList xs \<Rightarrow> xs \<noteq> []
      | JDict kvs \<Rightarrow> kvs \<noteq> [])"

text \<open>Dictionary keys: lists and dicts are unhashable; booleans, integers and floats
  are one key when they are numerically equal (\<^verbatim>\<open>True == 1 == 1.0\<close>).\<close>

definition py_hashable :: "json \<Rightarrow> bool" where
  "py_hashable x = (case x of JList _ \<Rightarrow> False | JDict _ \<Rightarrow> False | _ \<Rightarrow> True)"

definition num_val :: "json \<Rightarrow> pyfloat option" where
  "num_val x =
     (case x of
        JBool b \<Rightarrow> Some (Finite (if b then 1 else 0))
      | JInt i \<Rightarrow> Some (Finite (of_int i))
      | JFloat f \<Rightarrow> Some f
      | _ \<Rightarrow> None)"

definition key_eq :: "json \<Rightarrow> json \<Rightarrow> bool" where
  "key_eq a b =
     (case num_val a of
        Some x \<Rightarrow> (case num_val b of Some y \<Rightarrow> x = y | None \<Rightarrow> False)
      | None \<Rightarrow> (case num_val b of Some y \<Rightarrow> False | None \<Rightarrow> a = b))"

text \<open>\<^verbatim>\<open>d[k] = v\<close> on the items of a dict whose keys are decoded values: an existing
  key keeps its place (and its first spelling), a new key goes to the end.\<close>

fun dict_store :: "(json \<times> 'v) list \<Rightarrow> json \<Rightarrow> 'v \<Rightarrow> (json \<times> 'v) list" where
  "dict_store [] k v = [(k, v)]"
| "dict_store ((k', v') # kvs) k v =
     (if key_eq k' k then (k', v) # kvs else (k', v') # dict_store kvs k v)"

definition dict_setitem :: "(json \<times> 'v) list \<Rightarrow> json \<Rightarrow> 'v \<Rightarrow> error + (json \<times> 'v) list" where
  "dict_setitem d k v = (if py_hashable k then Inr (dict_store d k v) else Inl TypeError)"

fun dict_lookup :: "(json \<times> 'v) list \<Rightarrow> json \<Rightarrow> 'v option" where
  "dict_lookup [] k = None"
| "dict_lookup ((k', v') # kvs) k = (if key_eq k' k then Some v' else dict_lookup kvs k)"

text \<open>\<^verbatim>\<open>sep.join(x)\<close>: every element seen by iterating \<open>x\<close> must be a string.\<close>

fun intercalate :: "string \<Rightarrow> string list \<Rightarrow> string" where
  "intercalate sep [] = []"
| "intercalate sep [s] = s"
| "intercalate sep (s # t # ss) = s @ sep @ intercalate sep (t # ss)"

fun str_items :: "json list \<Rightarrow> error + string list" where
  "str_items [] = Inr []"
| "str_items (JStr s # xs) = (case str_items xs of Inl e \<Rightarrow> Inl e | Inr ss \<Rightarrow> Inr (s # ss))"
| "str_items (_ # xs) = Inl TypeError"

definition py_join :: "string \<Rightarrow> json \<Rightarrow> error + string" where
  "py_join sep x =
     (case py_iter x of
        Inl e \<Rightarrow> Inl e
      | Inr xs \<Rightarrow> (case str_items xs of Inl e \<Rightarrow> Inl e | Inr ss \<Rightarrow> Inr (intercalate sep ss)))"

section \<open>File name handling (lines 21-22)\<close>

text \<open>\<^verbatim>\<open>os.path.basename\<close>: what follows the last slash.\<close>

definition basename :: "string \<Rightarrow> string" where
  "basename p = rev (takeWhile (\<lambda>c. c \<noteq> CHR ''/'') (rev p))"

text \<open>\<^verbatim>\<open>s.split(sep)\<close> for a one-character separator.\<close>

fun py_split :: "char \<Rightarrow> string \<Rightarrow> string list" where
  "py_split sep [] = [[]]"
| "py_split sep (c # cs) =
     (if c = sep then [] # py_split sep cs
      else (case py_split sep cs of [] \<Rightarrow> [[c]] | p # ps \<Rightarrow> (c # p) # ps))"

definition server_name :: "string \<Rightarrow> string" where
  "server_name combined_file_path =
     (let combined_filename = basename combined_file_path
      in hd (py_split (CHR ''_'') combined_filename))"

section \<open>Reading the input (lines 25-30 and 40-44)\<close>

definition load_json :: "pylib \<Rightarrow> world \<Rightarrow> string \<Rightarrow> error + json" where
  "load_json lib w path =
     (case files w path of Inl e \<Rightarrow> Inl e | Inr txt \<Rightarrow> json_loads lib txt)"

definition as_results :: "pylib \<Rightarrow> json \<Rightarrow> error + json list" where
  "as_results lib combined_data =
     (case (case combined_data of JStr s \<Rightarrow> json_loads lib s | _ \<Rightarrow> Inr combined_data) of
        Inl e \<Rightarrow> Inl e
      | Inr d \<Rightarrow> Inr (case d of JList rs \<Rightarrow> rs | _ \<Rightarrow> [d]))"

section \<open>The aggregation loop (lines 46-97)\<close>

definition vulnerability_match :: "json \<Rightarrow> string \<times> json \<Rightarrow> error + json" where
  "vulnerability_match rule_name item =
     (case snd item of
        JDict vuln_data \<Rightarrow>
          Inr (JDict
            [(''rule'', rule_name),
             (''package'', JStr (fst item)),
             (''severity'', dict_get vuln_data ''severity'' (JStr [])),
             (''is_direct'', dict_get vuln_data ''isDirect'' (JBool False)),
             (''via'', dict_get vuln_data ''via'' (JList [])),
             (''effects'', dict_get vuln_data ''effects'' (JList [])),
             (''version_range'', dict_get vuln_data ''range'' (JStr [])),
             (''nodes'', dict_get vuln_data ''nodes'' (JList [])),
             (''fix_available'', dict_get vuln_data ''fixAvailable'' (JBool False)),
             (''type'', JStr ''vulnerability'')])
      | _ \<Rightarrow> Inl AttributeError)"

definition finding_match :: "json \<Rightarrow> json \<Rightarrow> error + json" where
  "finding_match rule_name match =
     (case match of
        JDict m \<Rightarrow>
          (case py_get (dict_get m ''start'' (JDict [])) ''line'' (JInt 0) of
             Inl e \<Rightarrow> Inl e
           | Inr line \<Rightarrow>
          (case py_get (dict_get m ''extra'' (JDict [])) ''lines'' (JStr []) of
             Inl e \<Rightarrow> Inl e
           | Inr snippet \<Rightarrow>
          (case py_get (dict_get m ''extra'' (JDict [])) ''message'' (JStr []) of
             Inl e \<Rightarrow> Inl e
           | Inr message \<Rightarrow>
             Inr (JDict
               [(''rule'', rule_name),
                (''path'', dict_get m ''path'' (JStr [])),
                (''line'', line),
                (''snippet'', snippet),
                (''message'', message),
                (''type'', JStr ''finding'')]))))
      | _ \<Rightarrow> Inl AttributeError)"

text \<open>A \<^verbatim>\<open>for\<close> loop that builds one record per element and stops at the first
  exception.\<close>

fun collect :: "('a \<Rightarrow> error + json) \<Rightarrow> 'a list \<Rightarrow> error + json list" where
  "collect f [] = Inr []"
| "collect f (x # xs) =
     (case f x of
        Inl e \<Rightarrow> Inl e
      | Inr m \<Rightarrow> (case collect f xs of Inl e \<Rightarrow> Inl e | Inr ms \<Rightarrow> Inr (m # ms)))"

definition severity_counts :: "json \<Rightarrow> error + (string \<times> json) list" where
  "severity_counts metadata =
     (case metadata of
        JDict md \<Rightarrow>
          Inr [(''info'', dict_get md ''info'' (JInt 0)),
               (''low'', dict_get md ''low'' (JInt 0)),
               (''moderate'', dict_get md ''moderate'' (JInt 0)),
               (''high'', dict_get md ''high'' (JInt 0)),
               (''critical'', dict_get md ''critical'' (JInt 0)),
               (''total'', dict_get md ''total'' (JInt 0))]
      | _ \<Rightarrow> Inl AttributeError)"

text \<open>The loop body for an element that is a dict (lines 51-97).\<close>

definition process_result :: "summary \<Rightarrow> (string \<times> json) list \<Rightarrow> error + summary" where
  "process_result s result =
     (let rule_name = dict_get result ''rulename'' (JStr ''unknown'');
          matches = dict_get result ''matches'' (JList [])
      in case py_len matches of
           Inl e \<Rightarrow> Inl e
         | Inr n \<Rightarrow>
        (case dict_setitem (findings_by_rule s) rule_name n of
           Inl e \<Rightarrow> Inl e
         | Inr fbr \<Rightarrow>
          (let s1 = s\<lparr>findings_by_rule := fbr, total_findings := total_findings s + n\<rparr>
           in if rule_name = JStr ''package_scan'' then
                (case py_items (dict_get result ''vulnerabilities'' (JDict [])) of
                   Inl e \<Rightarrow> Inl e
                 | Inr vulnerabilities \<Rightarrow>
                (case collect (vulnerability_match rule_name) vulnerabilities of
                   Inl e \<Rightarrow> Inl e
                 | Inr ms \<Rightarrow>
                (case py_get (dict_get result ''metadata'' (JDict [])) ''vulnerabilities'' (JDict []) of
                   Inl e \<Rightarrow> Inl e
                 | Inr metadata \<Rightarrow>
                (case severity_counts metadata of
                   Inl e \<Rightarrow> Inl e
                 | Inr vs \<Rightarrow>
                     Inr (s1\<lparr>all_matches := all_matches s1 @ ms,
                             vulnerability_summary := Some vs\<rparr>)))))
              else
                (case py_iter matches of
                   Inl e \<Rightarrow> Inl e
                 | Inr elems \<Rightarrow>
                (case collect (finding_match rule_name) elems of
                   Inl e \<Rightarrow> Inl e
                 | Inr ms \<Rightarrow> Inr (s1\<lparr>all_matches := all_matches s1 @ ms\<rparr>))))))"

text \<open>The loop itself, with the guard of lines 47-49: the log and the summary are
  threaded through; an exception leaves the loop with the log written so far.\<close>

fun process_results ::
  "pylib \<Rightarrow> json list \<Rightarrow> log_entry list \<Rightarrow> summary \<Rightarrow> log_entry list \<times> (error + summary)" where
  "process_results lib [] lg s = (lg, Inr s)"
| "process_results lib (r # rs) lg s =
     (case r of
        JDict result \<Rightarrow>
          (case process_result s result of
             Inl e \<Rightarrow> (lg, Inl e)
           | Inr s' \<Rightarrow> process_results lib rs lg s')
      | _ \<Rightarrow>
          process_results lib rs
            (lg @ [(WARNING, ''Skipping invalid result format: '' @ py_str lib r)]) s)"

definition empty_summary :: summary where
  "empty_summary =
     \<lparr>total_findings = 0, findings_by_rule = [], all_matches = [],
      vulnerability_summary = None\<rparr>"

section \<open>The text report (lines 112-138)\<close>

definition nl :: string where
  "nl = [CHR 0x0A]"

text \<open>One \<^verbatim>\<open>f.write\<close> of a line made of a label and the \<^verbatim>\<open>str()\<close> of a field.\<close>

definition field_line :: "pylib \<Rightarrow> string \<Rightarrow> json \<Rightarrow> string \<Rightarrow> error + string" where
  "field_line lib label m k =
     (case py_getitem m k of Inl e \<Rightarrow> Inl e | Inr v \<Rightarrow> Inr (label @ py_str lib v @ nl))"

definition join_line :: "string \<Rightarrow> json \<Rightarrow> string \<Rightarrow> error + string" where
  "join_line label m k =
     (case py_getitem m k of
        Inl e \<Rightarrow> Inl e
      | Inr v \<Rightarrow> (case py_join '', '' v of Inl e \<Rightarrow> Inl e | Inr t \<Rightarrow> Inr (label @ t @ nl)))"

text \<open>A write guarded by \<^verbatim>\<open>if match[k]:\<close>; nothing is written when the field is falsy.\<close>

definition guarded :: "json \<Rightarrow> string \<Rightarrow> error + string \<Rightarrow> (error + string) list" where
  "guarded m k wr =
     (case py_getitem m k of
        Inl e \<Rightarrow> [Inl e]
      | Inr v \<Rightarrow> (if py_truthy v then [wr] else []))"

definition match_writes :: "pylib \<Rightarrow> json \<Rightarrow> (error + string) list" where
  "match_writes lib m =
     field_line lib (nl @ ''Rule: '') m ''rule'' #
     (case py_getitem m ''type'' of
        Inl e \<Rightarrow> [Inl e]
      | Inr ty \<Rightarrow>
          if ty = JStr ''vulnerability'' then
            [field_line lib ''Package: '' m ''package'',
             field_line lib ''Severity: '' m ''severity'',
             field_line lib ''Direct Dependency: '' m ''is_direct'']
            @ guarded m ''via'' (join_line ''Via: '' m ''via'')
            @ guarded m ''effects'' (join_line ''Effects: '' m ''effects'')
            @ [field_line lib ''Affected Versions: '' m ''version_range'',
               join_line ''Locations: '' m ''nodes'',
               field_line lib ''Fix Available: '' m ''fix_available'']
          else
            [(case py_getitem m ''path'' of
                Inl e \<Rightarrow> Inl e
              | Inr p \<Rightarrow>
                  (case py_getitem m ''line'' of
                     Inl e \<Rightarrow> Inl e
                   | Inr l \<Rightarrow>
                       Inr (''File: '' @ py_str lib p @ '' (line '' @ py_str lib l @ '')'' @ nl))),
             field_line lib ''Finding: '' m ''message'']
            @ guarded m ''snippet'' (field_line lib ''Code: '' m ''snippet''))"

definition report_writes :: "pylib \<Rightarrow> summary \<Rightarrow> (error + string) list" where
  "report_writes lib s =
     [Inr (''Security Scan Summary'' @ nl @ replicate 20 (CHR ''='') @ nl @ nl),
      Inr (''Total Findings: '' @ py_str lib (JInt (total_findings s)) @ nl @ nl),
      Inr (''Findings by Rule:'' @ nl)]
     @ map (\<lambda>rc. Inr (''- '' @ py_str lib (fst rc) @ '': '' @ py_str lib (JInt (snd rc))
                        @ '' finding(s)'' @ nl))
         (findings_by_rule s)
     @ [Inr (nl @ ''Detailed Findings:'' @ nl)]
     @ concat (map (match_writes lib) (all_matches s))"

text \<open>The writes reach the file one after the other; the first exception ends them and
  leaves what was written before it.\<close>

fun write_all :: "(error + string) list \<Rightarrow> string \<times> error option" where
  "write_all [] = ([], None)"
| "write_all (Inl e # ws) = ([], Some e)"
| "write_all (Inr t # ws) = (case write_all ws of (u, r) \<Rightarrow> (t @ u, r))"

section \<open>The reducer (lines 14-141)\<close>

definition log_msg :: "level \<Rightarrow> string \<Rightarrow> world \<Rightarrow> world" where
  "log_msg lv msg w = w\<lparr>logs := logs w @ [(lv, msg)]\<rparr>"

definition write_file :: "string \<Rightarrow> string \<Rightarrow> world \<Rightarrow> world" where
  "write_file path txt w = w\<lparr>files := (files w)(path := Inr txt)\<rparr>"

text \<open>\<open>output_dir\<close> is the path as \<^verbatim>\<open>Path(output_dir)\<close> prints it; creating the
  directory and opening the two output files for writing are taken to succeed.\<close>

definition reduce_results :: "pylib \<Rightarrow> world \<Rightarrow> string \<Rightarrow> string \<Rightarrow> world \<times> (error + summary)" where
  "reduce_results lib w combined_file_path output_dir =
     (let w1 = log_msg INFO (''Reading combined results from '' @ combined_file_path) w;
          timestamp = now w1
      in case load_json lib w1 combined_file_path of
           Inl e \<Rightarrow>
             (log_msg ERROR (''Error reading combined results: '' @ exc_str lib e) w1, Inl e)
         | Inr combined_data \<Rightarrow>
        (case as_results lib combined_data of
           Inl e \<Rightarrow> (w1, Inl e)
         | Inr results \<Rightarrow>
        (case process_results lib results (logs w1) empty_summary of
           (lg, Inl e) \<Rightarrow> (w1\<lparr>logs := lg\<rparr>, Inl e)
         | (lg, Inr s) \<Rightarrow>
          (let w2 = w1\<lparr>logs := lg, dirs := insert output_dir (dirs w1)\<rparr>;
               json_path = output_dir @ ''/'' @ server_name combined_file_path @ ''_''
                           @ timestamp @ ''_reduced.json'';
               w3 = write_file json_path (json_dump lib s) w2;
               txt_path = output_dir @ ''/'' @ server_name combined_file_path @ ''_''
                          @ timestamp @ ''_summary.txt''
           in case write_all (report_writes lib s) of
                (txt, Some e) \<Rightarrow> (write_file txt_path txt w3, Inl e)
              | (txt, None) \<Rightarrow>
                  (log_msg INFO (''Reduced results saved to '' @ output_dir)
                     (write_file txt_path txt w3),
                   Inr s)))))"

section \<open>What the loop does, entry by entry\<close>

text \<open>The two fields of an entry read at lines 51-52, and the test of line 59.\<close>

definition rulename_of :: "(string \<times> json) list \<Rightarrow> json" where
  "rulename_of result = dict_get result ''rulename'' (JStr ''unknown'')"

definition matches_of :: "(string \<times> json) list \<Rightarrow> json" where
  "matches_of result = dict_get result ''matches'' (JList [])"

definition is_package_scan :: "(string \<times> json) list \<Rightarrow> bool" where
  "is_package_scan result = (rulename_of result = JStr ''package_scan'')"

text \<open>The elements of the input list that pass the guard of line 47, in order.\<close>

fun dict_entries :: "json list \<Rightarrow> (string \<times> json) list list" where
  "dict_entries [] = []"
| "dict_entries (JDict d # rs) = d # dict_entries rs"
| "dict_entries (_ # rs) = dict_entries rs"

text \<open>The loop body applied to those elements one after the other.\<close>

fun run_entries :: "summary \<Rightarrow> (string \<times> json) list list \<Rightarrow> error + summary" where
  "run_entries s [] = Inr s"
| "run_entries s (d # ds) =
     (case process_result s d of Inl e \<Rightarrow> Inl e | Inr s' \<Rightarrow> run_entries s' ds)"

text \<open>The list the loop of line 46 runs over: the decoded file after lines 40-44.\<close>

definition input_results :: "pylib \<Rightarrow> world \<Rightarrow> string \<Rightarrow> error + json list" where
  "input_results lib w path =
     (case load_json lib w path of Inl e \<Rightarrow> Inl e | Inr d \<Rightarrow> as_results lib d)"

definition report_error :: "pylib \<Rightarrow> summary \<Rightarrow> error option" where
  "report_error lib s = snd (write_all (report_writes lib s))"

text \<open>What the caller gets once the list is known: the summary, or the exception of the
  loop or of the report.\<close>

definition outcome :: "pylib \<Rightarrow> json list \<Rightarrow> error + summary" where
  "outcome lib rs =
     (case run_entries empty_summary (dict_entries rs) of
        Inl e \<Rightarrow> Inl e
      | Inr s \<Rightarrow> (case report_error lib s of Some e \<Rightarrow> Inl e | None \<Rightarrow> Inr s))"

text \<open>\<^verbatim>\<open>len(matches)\<close> of an entry, where it is defined.\<close>

definition len_matches :: "(string \<times> json) list \<Rightarrow> int" where
  "len_matches result = (case py_len (matches_of result) of Inl e \<Rightarrow> 0 | Inr n \<Rightarrow> n)"

definition vulnerabilities_of :: "(string \<times> json) list \<Rightarrow> json" where
  "vulnerabilities_of result = dict_get result ''vulnerabilities'' (JDict [])"

text \<open>The number of entries of the \<open>vulnerabilities\<close> mapping of an entry.\<close>

definition vulnerability_count :: "(string \<times> json) list \<Rightarrow> int" where
  "vulnerability_count result =
     (case vulnerabilities_of result of JDict kvs \<Rightarrow> int (length kvs) | _ \<Rightarrow> 0)"

text \<open>The records one entry appends to \<open>all_matches\<close> (lines 59-74 and 86-97).\<close>

definition entry_matches :: "(string \<times> json) list \<Rightarrow> error + json list" where
  "entry_matches result =
     (if is_package_scan result then
        (case py_items (vulnerabilities_of result) of
           Inl e \<Rightarrow> Inl e
         | Inr vs \<Rightarrow> collect (vulnerability_match (rulename_of result)) vs)
      else
        (case py_iter (matches_of result) of
           Inl e \<Rightarrow> Inl e
         | Inr elems \<Rightarrow> collect (finding_match (rulename_of result)) elems))"

definition entry_records :: "(string \<times> json) list \<Rightarrow> json list" where
  "entry_records result = (case entry_matches result of Inl e \<Rightarrow> [] | Inr ms \<Rightarrow> ms)"

text \<open>The severity counts a package scan entry stores (lines 77-85).\<close>

definition entry_counts :: "(string \<times> json) list \<Rightarrow> error + (string \<times> json) list" where
  "entry_counts result =
     (case py_get (dict_get result ''metadata'' (JDict [])) ''vulnerabilities'' (JDict []) of
        Inl e \<Rightarrow> Inl e
      | Inr metadata \<Rightarrow> severity_counts metadata)"


section \<open>Sample inputs\<close>

text \<open>
  Concrete files for the examples below. The decoder is given as the table of what
  \<^verbatim>\<open>json.loads\<close> returns on these texts and fails elsewhere; the texts that the sample
  library writes and logs (\<open>json_dump\<close>, \<open>py_str\<close>, \<open>exc_str\<close>) are tabulated only as far
  as the examples show them.
\<close>

text \<open>The JSON string literal for a text of printable ASCII characters, as
  \<^verbatim>\<open>json.dumps\<close> writes it.\<close>

definition json_quote :: "string \<Rightarrow> string" where
  "json_quote s =
     CHR 0x22 # concat (map (\<lambda>c. if c = CHR 0x22 \<or> c = CHR 0x5C then [CHR 0x5C, c] else [c]) s)
       @ [CHR 0x22]"

definition scenario_a_text :: string where
  \<open>scenario_a_text = ''[{"rulename":"eqeq","matches":[{"path":"a.py","start":{"line":5},"extra":{"lines":"x==y","message":"use is"}}]}]''\<close>

definition scenario_a_entry :: json where
  "scenario_a_entry =
     JDict [(''rulename'', JStr ''eqeq''),
            (''matches'', JList [JDict [(''path'', JStr ''a.py''),
                                        (''start'', JDict [(''line'', JInt 5)]),
                                        (''extra'', JDict [(''lines'', JStr ''x==y''),
                                                           (''message'', JStr ''use is'')])]])]"

definition scenario_a_object_text :: string where
  \<open>scenario_a_object_text = ''{"rulename":"eqeq","matches":[{"path":"a.py","start":{"line":5},"extra":{"lines":"x==y","message":"use is"}}]}''\<close>

definition scenario_b_text :: string where
  \<open>scenario_b_text = ''[{"rulename":"package_scan","vulnerabilities":{"lodash":{"severity":"high","isDirect":true,"fixAvailable":true}},"metadata":{"vulnerabilities":{"high":1,"total":1}}}]''\<close>

definition scenario_b :: json where
  "scenario_b =
     JList [JDict [(''rulename'', JStr ''package_scan''),
                   (''vulnerabilities'',
                      JDict [(''lodash'', JDict [(''severity'', JStr ''high''),
                                                 (''isDirect'', JBool True),
                                                 (''fixAvailable'', JBool True)])]),
                   (''metadata'',
                      JDict [(''vulnerabilities'', JDict [(''high'', JInt 1), (''total'', JInt 1)])])]]"

definition mixed_text :: string where
  \<open>mixed_text = ''[7,{"rulename":"eqeq","matches":[{"path":"a.py"},{"path":"b.py"}]},"x",{"rulename":"package_scan","vulnerabilities":{"lodash":{"severity":"high"}},"metadata":{"vulnerabilities":{"high":1,"total":1}}},{"rulename":"eqeq","matches":[{"path":"c.py"}]}]''\<close>

definition mixed_results :: "json list" where
  "mixed_results =
     [JInt 7,
      JDict [(''rulename'', JStr ''eqeq''),
             (''matches'', JList [JDict [(''path'', JStr ''a.py'')],
                                  JDict [(''path'', JStr ''b.py'')]])],
      JStr ''x'',
      JDict [(''rulename'', JStr ''package_scan''),
             (''vulnerabilities'', JDict [(''lodash'', JDict [(''severity'', JStr ''high'')])]),
             (''metadata'',
                JDict [(''vulnerabilities'', JDict [(''high'', JInt 1), (''total'', JInt 1)])])],
      JDict [(''rulename'', JStr ''eqeq''),
             (''matches'', JList [JDict [(''path'', JStr ''c.py'')]])]]"

definition objects_text :: string where
  \<open>objects_text = ''[{"rulename":"eqeq","matches":[{"path":"a.py"},{"path":"b.py"}]},{"rulename":"package_scan","vulnerabilities":{"lodash":{"severity":"high"}},"metadata":{"vulnerabilities":{"high":1,"total":1}}},{"rulename":"eqeq","matches":[{"path":"c.py"}]}]''\<close>

definition unsized_text :: string where
  \<open>unsized_text = ''[{"matches": 5}]''\<close>

definition nested_text :: string where
  \<open>nested_text = ''[{"matches": [{}]}]''\<close>

definition sample_loads :: "string \<Rightarrow> error + json" where
  "sample_loads t =
     (if t = scenario_a_text then Inr (JList [scenario_a_entry])
      else if t = scenario_a_object_text then Inr scenario_a_entry
      else if t = scenario_b_text then Inr scenario_b
      else if t = mixed_text then Inr (JList mixed_results)
      else if t = objects_text then Inr (JList (filter is_dict mixed_results))
      else if t = unsized_text then Inr (JList [JDict [(''matches'', JInt 5)]])
      else if t = nested_text then Inr (JList [JDict [(''matches'', JList [JDict []])]])
      else if t = json_quote nested_text then Inr (JStr nested_text)
      else if t = json_quote (json_quote nested_text) then Inr (JStr (json_quote nested_text))
      else Inl JSONDecodeError)"

definition sample_lib :: pylib where
  "sample_lib =
     \<lparr>json_loads = sample_loads,
      json_dump = (\<lambda>s. []),
      py_str = (\<lambda>v. case v of JInt i \<Rightarrow> (if i = 7 then ''7'' else []) | JStr s \<Rightarrow> s | _ \<Rightarrow> []),
      exc_str = (\<lambda>e. case e of OSError m \<Rightarrow> m | _ \<Rightarrow> [])\<rparr>"

definition sample_world :: world where
  "sample_world =
     \<lparr>files = (\<lambda>p. if p = ''results/combined/a_1.json'' then Inr scenario_a_text
                    else if p = ''results/combined/object_1.json'' then Inr scenario_a_object_text
                    else if p = ''results/combined/b_1.json'' then Inr scenario_b_text
                    else if p = ''results/combined/mixed_1.json'' then Inr mixed_text
                    else if p = ''results/combined/objects_1.json'' then Inr objects_text
                    else if p = ''results/combined/unsized_1.json'' then Inr unsized_text
                    else if p = ''results/combined/nested_1.json'' then Inr nested_text
                    else if p = ''results/combined/quoted_1.json'' then Inr (json_quote nested_text)
                    else if p = ''results/combined/quoted_2.json''
                      then Inr (json_quote (json_quote nested_text))
                    else if p = ''results/combined/broken_1.json'' then Inr ''[{''
                    else Inl (OSError ''[Errno 2] No such file or directory'')),
      dirs = {},
      logs = [],
      now = ''20240101120000''\<rparr>"

definition mixed_summary :: summary where
  "mixed_summary =
     \<lparr>total_findings = 3,
      findings_by_rule = [(JStr ''eqeq'', 1), (JStr ''package_scan'', 0)],
      all_matches =
        [JDict [(''rule'', JStr ''eqeq''), (''path'', JStr ''a.py''), (''line'', JInt 0),
                (''snippet'', JStr []), (''message'', JStr []), (''type'', JStr ''finding'')],
         JDict [(''rule'', JStr ''eqeq''), (''path'', JStr ''b.py''), (''line'', JInt 0),
                (''snippet'', JStr []), (''message'', JStr []), (''type'', JStr ''finding'')],
         JDict [(''rule'', JStr ''package_scan''), (''package'', JStr ''lodash''),
                (''severity'', JStr ''high''), (''is_direct'', JBool False), (''via'', JList []),
                (''effects'', JList []), (''version_range'', JStr []), (''nodes'', JList []),
                (''fix_available'', JBool False), (''type'', JStr ''vulnerability'')],
         JDict [(''rule'', JStr ''eqeq''), (''path'', JStr ''c.py''), (''line'', JInt 0),
                (''snippet'', JStr []), (''message'', JStr []), (''type'', JStr ''finding'')]],
      vulnerability_summary =
        Some [(''info'', JInt 0), (''low'', JInt 0), (''moderate'', JInt 0),
              (''high'', JInt 1), (''critical'', JInt 0), (''total'', JInt 1)]\<rparr>"

section \<open>The loop, step by step\<close>

lemma process_result_Inr:
  assumes "process_result s d = Inr s'"
  shows "\<exists>n ms. py_len (matches_of d) = Inr n \<and> py_hashable (rulename_of d) \<and>
           entry_matches d = Inr ms \<and>
           total_findings s' = total_findings s + n \<and>
           findings_by_rule s' = dict_store (findings_by_rule s) (rulename_of d) n \<and>
           all_matches s' = all_matches s @ ms \<and>
           (if is_package_scan d
            then \<exists>vs. entry_counts d = Inr vs \<and> vulnerability_summary s' = Some vs
            else vulnerability_summary s' = vulnerability_summary s)"
  using assms
  by (auto simp: process_result_def Let_def rulename_of_def matches_of_def is_package_scan_def
      entry_matches_def entry_counts_def vulnerabilities_of_def dict_setitem_def
      split: sum.splits if_splits)

lemma process_results_snd:
  "snd (process_results lib rs lg s) = run_entries s (dict_entries rs)"
proof (induction rs arbitrary: lg s)
  case Nil
  show ?case by simp
next
  case (Cons r rs)
  show ?case
    by (cases r) (simp_all add: Cons.IH split: sum.splits)
qed

lemma load_json_log: "load_json lib (log_msg lv m w) p = load_json lib w p"
  by (simp add: load_json_def log_msg_def)

lemma reduce_results_snd:
  "snd (reduce_results lib w p out) =
     (case input_results lib w p of Inl e \<Rightarrow> Inl e | Inr rs \<Rightarrow> outcome lib rs)"
proof (cases "load_json lib w p")
  case (Inl e)
  then show ?thesis by (simp add: reduce_results_def input_results_def load_json_log)
next
  case (Inr d)
  show ?thesis
  proof (cases "as_results lib d")
    case (Inl e)
    with Inr show ?thesis by (simp add: reduce_results_def input_results_def load_json_log)
  next
    case rs: (Inr rs)
    let ?lg0 = "logs (log_msg INFO (''Reading combined results from '' @ p) w)"
    obtain lg r where pr: "process_results lib rs ?lg0 empty_summary = (lg, r)"
      by (cases "process_results lib rs ?lg0 empty_summary")
    have r: "r = run_entries empty_summary (dict_entries rs)"
      using process_results_snd [of lib rs ?lg0 empty_summary] pr by simp
    show ?thesis
      using Inr rs pr r
      by (simp add: reduce_results_def input_results_def outcome_def report_error_def Let_def
          load_json_log split: sum.splits prod.splits option.splits)
  qed
qed

lemma reduce_results_Inr:
  assumes "snd (reduce_results lib w p out) = Inr S"
  shows "\<exists>rs. input_results lib w p = Inr rs \<and>
              run_entries empty_summary (dict_entries rs) = Inr S"
  using assms
  by (auto simp: reduce_results_snd outcome_def split: sum.splits option.splits)

lemma run_entries_total:
  "run_entries s ds = Inr S \<Longrightarrow>
     total_findings S = total_findings s + sum_list (map len_matches ds) \<and>
     (\<forall>d\<in>set ds. py_len (matches_of d) = Inr (len_matches d))"
proof (induction ds arbitrary: s)
  case Nil
  then show ?case by simp
next
  case (Cons d ds)
  from Cons.prems obtain s' where
    step: "process_result s d = Inr s'" and rest: "run_entries s' ds = Inr S"
    by (auto split: sum.splits)
  from process_result_Inr [OF step] obtain n where
    n: "py_len (matches_of d) = Inr n" "total_findings s' = total_findings s + n"
    by blast
  from n(1) have "len_matches d = n" by (simp add: len_matches_def)
  with Cons.IH [OF rest] n show ?case by simp
qed

lemma run_entries_matches:
  "run_entries s ds = Inr S \<Longrightarrow>
     all_matches S = all_matches s @ concat (map entry_records ds) \<and>
     (\<forall>d\<in>set ds. entry_matches d = Inr (entry_records d))"
proof (induction ds arbitrary: s)
  case Nil
  then show ?case by simp
next
  case (Cons d ds)
  from Cons.prems obtain s' where
    step: "process_result s d = Inr s'" and rest: "run_entries s' ds = Inr S"
    by (auto split: sum.splits)
  from process_result_Inr [OF step] obtain ms where
    ms: "entry_matches d = Inr ms" "all_matches s' = all_matches s @ ms"
    by blast
  from ms(1) have "entry_records d = ms" by (simp add: entry_records_def)
  with Cons.IH [OF rest] ms show ?case by simp
qed

lemma collect_Inr:
  "collect f xs = Inr ms \<Longrightarrow> list_all2 (\<lambda>x m. f x = Inr m) xs ms"
  by (induction xs arbitrary: ms) (auto split: sum.splits)

lemma collect_Inr_mem:
  "collect f xs = Inr ms \<Longrightarrow> m \<in> set ms \<Longrightarrow> \<exists>x\<in>set xs. f x = Inr m"
  by (induction xs arbitrary: ms) (auto split: sum.splits)

lemma finding_match_fields:
  "finding_match rn x = Inr m \<Longrightarrow>
     py_getitem m ''rule'' = Inr rn \<and> py_getitem m ''type'' = Inr (JStr ''finding'')"
  by (auto simp: finding_match_def py_getitem_def split: json.splits sum.splits)

lemma vulnerability_match_fields:
  "vulnerability_match rn x = Inr m \<Longrightarrow>
     py_getitem m ''rule'' = Inr rn \<and> py_getitem m ''type'' = Inr (JStr ''vulnerability'')"
  by (auto simp: vulnerability_match_def py_getitem_def split: json.splits sum.splits)

lemma py_iter_len: "py_iter x = Inr elems \<Longrightarrow> py_len x = Inr (int (length elems))"
  by (auto simp: py_iter_def py_len_def split: json.splits)

lemma entry_records_fields:
  assumes "entry_matches d = Inr ms" and "m \<in> set ms"
  shows "py_getitem m ''rule'' = Inr (rulename_of d) \<and>
         py_getitem m ''type'' =
           Inr (JStr (if is_package_scan d then ''vulnerability'' else ''finding''))"
proof (cases "is_package_scan d")
  case True
  with assms(1) obtain vs where c: "collect (vulnerability_match (rulename_of d)) vs = Inr ms"
    by (auto simp: entry_matches_def split: sum.splits)
  from collect_Inr_mem [OF c assms(2)] obtain x where
    "vulnerability_match (rulename_of d) x = Inr m"
    by blast
  from vulnerability_match_fields [OF this] True show ?thesis by simp
next
  case False
  with assms(1) obtain vs where c: "collect (finding_match (rulename_of d)) vs = Inr ms"
    by (auto simp: entry_matches_def split: sum.splits)
  from collect_Inr_mem [OF c assms(2)] obtain x where
    "finding_match (rulename_of d) x = Inr m"
    by blast
  from finding_match_fields [OF this] False show ?thesis by simp
qed

lemma entry_records_length:
  assumes "entry_matches d = Inr ms" and "py_len (matches_of d) = Inr n"
  shows "int (length ms) = (if is_package_scan d then vulnerability_count d else n)"
proof (cases "is_package_scan d")
  case True
  with assms(1) obtain vs where v: "py_items (vulnerabilities_of d) = Inr vs"
    and c: "collect (vulnerability_match (rulename_of d)) vs = Inr ms"
    by (auto simp: entry_matches_def split: sum.splits)
  from collect_Inr [OF c] have "length ms = length vs" by (simp add: list_all2_lengthD)
  moreover from v have "vulnerability_count d = int (length vs)"
    by (auto simp: py_items_def vulnerability_count_def split: json.splits)
  ultimately show ?thesis using True by simp
next
  case False
  with assms(1) obtain vs where v: "py_iter (matches_of d) = Inr vs"
    and c: "collect (finding_match (rulename_of d)) vs = Inr ms"
    by (auto simp: entry_matches_def split: sum.splits)
  from collect_Inr [OF c] have "length ms = length vs" by (simp add: list_all2_lengthD)
  with py_iter_len [OF v] assms(2) False show ?thesis by simp
qed

section \<open>The sample runs\<close>

lemmas sample_defs =
  sample_lib_def sample_world_def sample_loads_def scenario_a_text_def
  scenario_a_object_text_def scenario_b_text_def mixed_text_def objects_text_def
  unsized_text_def nested_text_def json_quote_def

lemmas loop_defs =
  process_result_def dict_get_def py_len_def dict_setitem_def py_hashable_def key_eq_def
  num_val_def py_items_def py_iter_def py_get_def vulnerability_match_def finding_match_def
  severity_counts_def empty_summary_def Let_def

lemmas report_defs =
  report_error_def report_writes_def match_writes_def field_line_def join_line_def
  guarded_def py_getitem_def py_truthy_def py_join_def

lemma mixed_input:
  "input_results sample_lib sample_world ''results/combined/mixed_1.json'' = Inr mixed_results"
  by (simp add: input_results_def load_json_def as_results_def sample_defs)

lemma mixed_outcome: "outcome lib mixed_results = Inr mixed_summary"
  by (simp add: outcome_def mixed_results_def loop_defs report_defs mixed_summary_def)

lemma mixed_run:
  "snd (reduce_results sample_lib sample_world ''results/combined/mixed_1.json''
          ''results/reduced'') = Inr mixed_summary"
  by (simp add: reduce_results_snd mixed_input mixed_outcome)

section \<open>Counting\<close>

text \<open>
  C1: whenever the reducer returns a summary, its \<open>total_findings\<close> is the sum of
  \<^verbatim>\<open>len(matches)\<close> over the entries of the processed list that are dicts (package scan
  entries included, \<open>matches\<close> defaulting to the empty list), and \<^verbatim>\<open>len\<close> is defined on
  each of them; vulnerability records add nothing.
\<close>

theorem total_findings_sum:
  assumes "snd (reduce_results lib w p out) = Inr S"
  shows "\<exists>rs. input_results lib w p = Inr rs \<and>
           (\<forall>d\<in>set (dict_entries rs). py_len (matches_of d) = Inr (len_matches d)) \<and>
           total_findings S = sum_list (map len_matches (dict_entries rs))"
proof -
  from reduce_results_Inr [OF assms] obtain rs where
    rs: "input_results lib w p = Inr rs"
    and run: "run_entries empty_summary (dict_entries rs) = Inr S"
    by blast
  from run_entries_total [OF run] rs show ?thesis
    by (simp add: empty_summary_def)
qed

theorem total_findings_sum_witness:
  "snd (reduce_results sample_lib sample_world ''results/combined/mixed_1.json''
          ''results/reduced'') = Inr mixed_summary \<and>
   total_findings mixed_summary = sum_list (map len_matches (dict_entries mixed_results)) \<and>
   total_findings mixed_summary = 3"
  using total_findings_sum [OF mixed_run] mixed_run mixed_input
  by (auto simp: mixed_summary_def)

text \<open>
  C2: whenever the reducer returns a summary, the length of \<open>all_matches\<close> is the number
  of matches of the entries that are not package scans plus the number of entries of the
  \<open>vulnerabilities\<close> mapping of those that are.
\<close>

theorem all_matches_length:
  assumes "snd (reduce_results lib w p out) = Inr S"
  shows "\<exists>rs. input_results lib w p = Inr rs \<and>
           int (length (all_matches S)) =
             sum_list (map (\<lambda>d. if is_package_scan d then vulnerability_count d
                                 else len_matches d) (dict_entries rs))"
proof -
  from reduce_results_Inr [OF assms] obtain rs where
    rs: "input_results lib w p = Inr rs"
    and run: "run_entries empty_summary (dict_entries rs) = Inr S"
    by blast
  have each: "int (length (entry_records d)) =
                (if is_package_scan d then vulnerability_count d else len_matches d)"
    if "d \<in> set (dict_entries rs)" for d
    using that run_entries_matches [OF run] run_entries_total [OF run]
    by (intro entry_records_length) auto
  have "int (length (concat (map entry_records ds))) =
          sum_list (map (\<lambda>d. int (length (entry_records d))) ds)" for ds
    by (induction ds) auto
  then have "int (length (all_matches S)) =
          sum_list (map (\<lambda>d. int (length (entry_records d))) (dict_entries rs))"
    using run_entries_matches [OF run] by (simp add: empty_summary_def)
  also have "\<dots> = sum_list (map (\<lambda>d. if is_package_scan d then vulnerability_count d
                                 else len_matches d) (dict_entries rs))"
    using each by (intro arg_cong [where f = sum_list] map_cong) auto
  finally show ?thesis using rs by blast
qed

theorem all_matches_length_witness:
  "snd (reduce_results sample_lib sample_world ''results/combined/mixed_1.json''
          ''results/reduced'') = Inr mixed_summary \<and>
   int (length (all_matches mixed_summary)) =
     sum_list (map (\<lambda>d. if is_package_scan d then vulnerability_count d else len_matches d)
                 (dict_entries mixed_results)) \<and>
   length (all_matches mixed_summary) = 4"
  using all_matches_length [OF mixed_run] mixed_run mixed_input
  by (auto simp: mixed_summary_def)

section \<open>The records of all_matches\<close>

text \<open>
  C10: whenever the reducer returns a summary, \<open>all_matches\<close> is the concatenation, in
  document order of the entries, of the records built from each entry; every record
  carries the \<open>rule\<close> of its entry and the \<open>type\<close> \<^verbatim>\<open>vulnerability\<close> (package scan) or
  \<^verbatim>\<open>finding\<close> (any other entry), and the records of an entry follow its matches, or the
  items of its vulnerabilities, one for one and in sequence.
\<close>

theorem all_matches_in_input_order:
  assumes "snd (reduce_results lib w p out) = Inr S"
  shows "\<exists>rs. input_results lib w p = Inr rs \<and>
           all_matches S = concat (map entry_records (dict_entries rs)) \<and>
           (\<forall>d\<in>set (dict_entries rs).
              (\<forall>m\<in>set (entry_records d).
                 py_getitem m ''rule'' = Inr (rulename_of d) \<and>
                 py_getitem m ''type'' =
                   Inr (JStr (if is_package_scan d then ''vulnerability'' else ''finding''))) \<and>
              (if is_package_scan d
               then \<exists>vs. py_items (vulnerabilities_of d) = Inr vs \<and>
                      list_all2 (\<lambda>x m. vulnerability_match (rulename_of d) x = Inr m)
                        vs (entry_records d)
               else \<exists>elems. py_iter (matches_of d) = Inr elems \<and>
                      list_all2 (\<lambda>x m. finding_match (rulename_of d) x = Inr m)
                        elems (entry_records d)))"
proof -
  from reduce_results_Inr [OF assms] obtain rs where
    rs: "input_results lib w p = Inr rs"
    and run: "run_entries empty_summary (dict_entries rs) = Inr S"
    by blast
  from run_entries_matches [OF run] have
    cat: "all_matches S = concat (map entry_records (dict_entries rs))"
    and ok: "\<And>d. d \<in> set (dict_entries rs) \<Longrightarrow> entry_matches d = Inr (entry_records d)"
    by (simp_all add: empty_summary_def)
  have "(\<forall>m\<in>set (entry_records d).
           py_getitem m ''rule'' = Inr (rulename_of d) \<and>
           py_getitem m ''type'' =
             Inr (JStr (if is_package_scan d then ''vulnerability'' else ''finding''))) \<and>
        (if is_package_scan d
         then \<exists>vs. py_items (vulnerabilities_of d) = Inr vs \<and>
                list_all2 (\<lambda>x m. vulnerability_match (rulename_of d) x = Inr m)
                  vs (entry_records d)
         else \<exists>elems. py_iter (matches_of d) = Inr elems \<and>
                list_all2 (\<lambda>x m. finding_match (rulename_of d) x = Inr m)
                  elems (entry_records d))"
    if d: "d \<in> set (dict_entries rs)" for d
  proof
    show "\<forall>m\<in>set (entry_records d).
           py_getitem m ''rule'' = Inr (rulename_of d) \<and>
           py_getitem m ''type'' =
             Inr (JStr (if is_package_scan d then ''vulnerability'' else ''finding''))"
      using entry_records_fields [OF ok [OF d]] by blast
    show "if is_package_scan d
         then \<exists>vs. py_items (vulnerabilities_of d) = Inr vs \<and>
                list_all2 (\<lambda>x m. vulnerability_match (rulename_of d) x = Inr m)
                  vs (entry_records d)
         else \<exists>elems. py_iter (matches_of d) = Inr elems \<and>
                list_all2 (\<lambda>x m. finding_match (rulename_of d) x = Inr m)
                  elems (entry_records d)"
      using ok [OF d]
      by (auto simp: entry_matches_def split: sum.splits if_splits intro: collect_Inr)
  qed
  with rs cat show ?thesis by blast
qed

theorem all_matches_in_input_order_witness:
  "snd (reduce_results sample_lib sample_world ''results/combined/mixed_1.json''
          ''results/reduced'') = Inr mixed_summary \<and>
   all_matches mixed_summary = concat (map entry_records (dict_entries mixed_results)) \<and>
   map (\<lambda>m. py_getitem m ''path'')
     (filter (\<lambda>m. py_getitem m ''type'' = Inr (JStr ''finding'')) (all_matches mixed_summary))
     = [Inr (JStr ''a.py''), Inr (JStr ''b.py''), Inr (JStr ''c.py'')]"
proof -
  have "all_matches mixed_summary = concat (map entry_records (dict_entries mixed_results))"
    using all_matches_in_input_order [OF mixed_run] mixed_input by auto
  moreover have "map (\<lambda>m. py_getitem m ''path'')
     (filter (\<lambda>m. py_getitem m ''type'' = Inr (JStr ''finding'')) (all_matches mixed_summary))
     = [Inr (JStr ''a.py''), Inr (JStr ''b.py''), Inr (JStr ''c.py'')]"
    by (simp add: mixed_summary_def py_getitem_def)
  ultimately show ?thesis using mixed_run by blast
qed

section \<open>Last write wins\<close>

lemma key_eq_iff:
  "key_eq a b \<longleftrightarrow>
     (case num_val a of Some x \<Rightarrow> Inl x | None \<Rightarrow> Inr a) =
     (case num_val b of Some y \<Rightarrow> Inl y | None \<Rightarrow> Inr b)"
  by (simp add: key_eq_def split: option.splits)

lemma key_eq_trans_left: "key_eq a k \<Longrightarrow> key_eq a k' = key_eq k k'"
  by (simp add: key_eq_iff)

lemma dict_lookup_store:
  "dict_lookup (dict_store d k v) k' = (if key_eq k k' then Some v else dict_lookup d k')"
proof (induction d)
  case Nil
  show ?case by simp
next
  case (Cons kv d)
  obtain a b where kv: "kv = (a, b)" by (cases kv)
  show ?case
  proof (cases "key_eq a k")
    case True
    then show ?thesis by (simp add: kv key_eq_trans_left)
  next
    case False
    then have "key_eq a k' \<Longrightarrow> \<not> key_eq k k'" by (auto simp: key_eq_iff)
    with False show ?thesis by (auto simp: kv Cons.IH)
  qed
qed

lemma find_snoc:
  "find P (xs @ [x]) =
     (case find P xs of Some y \<Rightarrow> Some y | None \<Rightarrow> if P x then Some x else None)"
  by (induction xs) auto

lemma run_entries_findings_by_rule:
  "run_entries s ds = Inr S \<Longrightarrow>
     dict_lookup (findings_by_rule S) k =
       (case find (\<lambda>d. key_eq (rulename_of d) k) (rev ds) of
          Some d \<Rightarrow> Some (len_matches d)
        | None \<Rightarrow> dict_lookup (findings_by_rule s) k)"
proof (induction ds arbitrary: s)
  case Nil
  then show ?case by simp
next
  case (Cons d ds)
  from Cons.prems obtain s' where
    step: "process_result s d = Inr s'" and rest: "run_entries s' ds = Inr S"
    by (auto split: sum.splits)
  from process_result_Inr [OF step] obtain n where
    n: "py_len (matches_of d) = Inr n"
       "findings_by_rule s' = dict_store (findings_by_rule s) (rulename_of d) n"
    by blast
  from n(1) have len: "len_matches d = n" by (simp add: len_matches_def)
  show ?case
    using Cons.IH [OF rest] n(2) len
    by (simp add: find_snoc dict_lookup_store split: option.splits)
qed

lemma run_entries_vulnerability_summary:
  "run_entries s ds = Inr S \<Longrightarrow>
     map_option Inr (vulnerability_summary S) =
       (case find is_package_scan (rev ds) of
          Some d \<Rightarrow> Some (entry_counts d)
        | None \<Rightarrow> map_option Inr (vulnerability_summary s))"
proof (induction ds arbitrary: s)
  case Nil
  then show ?case by simp
next
  case (Cons d ds)
  from Cons.prems obtain s' where
    step: "process_result s d = Inr s'" and rest: "run_entries s' ds = Inr S"
    by (auto split: sum.splits)
  from process_result_Inr [OF step] have
    "if is_package_scan d
     then \<exists>vs. entry_counts d = Inr vs \<and> vulnerability_summary s' = Some vs
     else vulnerability_summary s' = vulnerability_summary s"
    by blast
  then show ?case
    using Cons.IH [OF rest]
    by (auto simp: find_snoc split: option.splits if_splits)
qed

text \<open>
  C8: whenever the reducer returns a summary, looking a (hashable) rule name up in
  \<open>findings_by_rule\<close> gives the match count of the last entry with that rule name (and
  nothing when no entry has it), and \<open>vulnerability_summary\<close> holds the severity counts
  of the last package scan entry (and is absent when there is none).
\<close>

theorem last_entry_wins:
  assumes "snd (reduce_results lib w p out) = Inr S"
  shows "\<exists>rs. input_results lib w p = Inr rs \<and>
           (\<forall>k. py_hashable k \<longrightarrow>
                dict_lookup (findings_by_rule S) k =
                  map_option len_matches
                    (find (\<lambda>d. key_eq (rulename_of d) k) (rev (dict_entries rs)))) \<and>
           map_option Inr (vulnerability_summary S) =
             map_option entry_counts (find is_package_scan (rev (dict_entries rs)))"
proof -
  from reduce_results_Inr [OF assms] obtain rs where
    rs: "input_results lib w p = Inr rs"
    and run: "run_entries empty_summary (dict_entries rs) = Inr S"
    by blast
  have "dict_lookup (findings_by_rule S) k =
          map_option len_matches
            (find (\<lambda>d. key_eq (rulename_of d) k) (rev (dict_entries rs)))" for k
    using run_entries_findings_by_rule [OF run, of k]
    by (simp add: empty_summary_def split: option.splits)
  moreover have "map_option Inr (vulnerability_summary S) =
      map_option entry_counts (find is_package_scan (rev (dict_entries rs)))"
    using run_entries_vulnerability_summary [OF run]
    by (simp add: empty_summary_def split: option.splits)
  ultimately show ?thesis using rs by blast
qed

theorem last_entry_wins_witness:
  "snd (reduce_results sample_lib sample_world ''results/combined/mixed_1.json''
          ''results/reduced'') = Inr mixed_summary \<and>
   dict_lookup (findings_by_rule mixed_summary) (JStr ''eqeq'') =
     map_option len_matches
       (find (\<lambda>d. key_eq (rulename_of d) (JStr ''eqeq'')) (rev (dict_entries mixed_results))) \<and>
   dict_lookup (findings_by_rule mixed_summary) (JStr ''eqeq'') = Some 1"
proof -
  have "dict_lookup (findings_by_rule mixed_summary) (JStr ''eqeq'') =
     map_option len_matches
       (find (\<lambda>d. key_eq (rulename_of d) (JStr ''eqeq'')) (rev (dict_entries mixed_results)))"
    using last_entry_wins [OF mixed_run] mixed_input by (auto simp: py_hashable_def)
  moreover have "dict_lookup (findings_by_rule mixed_summary) (JStr ''eqeq'') = Some 1"
    by (simp add: mixed_summary_def key_eq_def num_val_def)
  ultimately show ?thesis using mixed_run by blast
qed

section \<open>Scenario B\<close>

text \<open>
  C9: for the one-element input with the package scan entry for \<^verbatim>\<open>lodash\<close>, the reducer
  returns the summary with one vulnerability record for \<^verbatim>\<open>lodash\<close>, the six severity
  counts with \<open>high\<close> and \<open>total\<close> at 1, \<open>findings_by_rule\<close> with \<^verbatim>\<open>package_scan\<close> at 0 and
  \<open>total_findings\<close> 0.
\<close>

theorem scenario_b_summary:
  assumes "load_json lib w p = Inr scenario_b"
  shows "snd (reduce_results lib w p out) = Inr
     \<lparr>total_findings = 0,
      findings_by_rule = [(JStr ''package_scan'', 0)],
      all_matches =
        [JDict [(''rule'', JStr ''package_scan''), (''package'', JStr ''lodash''),
                (''severity'', JStr ''high''), (''is_direct'', JBool True), (''via'', JList []),
                (''effects'', JList []), (''version_range'', JStr []), (''nodes'', JList []),
                (''fix_available'', JBool True), (''type'', JStr ''vulnerability'')]],
      vulnerability_summary =
        Some [(''info'', JInt 0), (''low'', JInt 0), (''moderate'', JInt 0),
              (''high'', JInt 1), (''critical'', JInt 0), (''total'', JInt 1)]\<rparr>"
proof -
  have "input_results lib w p = Inr
     [JDict [(''rulename'', JStr ''package_scan''),
             (''vulnerabilities'',
                JDict [(''lodash'', JDict [(''severity'', JStr ''high''),
                                           (''isDirect'', JBool True),
                                           (''fixAvailable'', JBool True)])]),
             (''metadata'',
                JDict [(''vulnerabilities'', JDict [(''high'', JInt 1), (''total'', JInt 1)])])]]"
    using assms by (simp add: input_results_def as_results_def scenario_b_def)
  then show ?thesis
    by (simp add: reduce_results_snd outcome_def loop_defs report_defs)
qed

theorem scenario_b_summary_witness:
  "load_json sample_lib sample_world ''results/combined/b_1.json'' = Inr scenario_b \<and>
   snd (reduce_results sample_lib sample_world ''results/combined/b_1.json'' ''results/reduced'')
     = Inr
     \<lparr>total_findings = 0,
      findings_by_rule = [(JStr ''package_scan'', 0)],
      all_matches =
        [JDict [(''rule'', JStr ''package_scan''), (''package'', JStr ''lodash''),
                (''severity'', JStr ''high''), (''is_direct'', JBool True), (''via'', JList []),
                (''effects'', JList []), (''version_range'', JStr []), (''nodes'', JList []),
                (''fix_available'', JBool True), (''type'', JStr ''vulnerability'')]],
      vulnerability_summary =
        Some [(''info'', JInt 0), (''low'', JInt 0), (''moderate'', JInt 0),
              (''high'', JInt 1), (''critical'', JInt 0), (''total'', JInt 1)]\<rparr>"
proof -
  have l: "load_json sample_lib sample_world ''results/combined/b_1.json'' = Inr scenario_b"
    by (simp add: load_json_def sample_defs)
  from scenario_b_summary [OF l] l show ?thesis by blast
qed

section \<open>A failed read\<close>

text \<open>
  C3: when opening the input file or decoding its text fails, the reducer logs the error
  and raises it; the files and the directories are what they were, so neither output file
  has been written.
\<close>

theorem read_failure_no_output:
  assumes "load_json lib w p = Inl e"
  shows "snd (reduce_results lib w p out) = Inl e \<and>
         files (fst (reduce_results lib w p out)) = files w \<and>
         dirs (fst (reduce_results lib w p out)) = dirs w \<and>
         logs (fst (reduce_results lib w p out)) =
           logs w @ [(INFO, ''Reading combined results from '' @ p),
                     (ERROR, ''Error reading combined results: '' @ exc_str lib e)]"
  using assms
  by (simp add: reduce_results_def Let_def load_json_log, simp add: log_msg_def)

theorem read_failure_no_output_witness:
  "load_json sample_lib sample_world ''results/combined/missing_1.json''
     = Inl (OSError ''[Errno 2] No such file or directory'') \<and>
   load_json sample_lib sample_world ''results/combined/broken_1.json'' = Inl JSONDecodeError \<and>
   snd (reduce_results sample_lib sample_world ''results/combined/missing_1.json''
          ''results/reduced'') = Inl (OSError ''[Errno 2] No such file or directory'') \<and>
   snd (reduce_results sample_lib sample_world ''results/combined/broken_1.json''
          ''results/reduced'') = Inl JSONDecodeError \<and>
   files (fst (reduce_results sample_lib sample_world ''results/combined/broken_1.json''
          ''results/reduced'')) = files sample_world \<and>
   dirs (fst (reduce_results sample_lib sample_world ''results/combined/broken_1.json''
          ''results/reduced'')) = {}"
proof -
  have m: "load_json sample_lib sample_world ''results/combined/missing_1.json''
     = Inl (OSError ''[Errno 2] No such file or directory'')"
    by (simp add: load_json_def sample_defs)
  have b: "load_json sample_lib sample_world ''results/combined/broken_1.json''
     = Inl JSONDecodeError"
    by (simp add: load_json_def sample_defs)
  have "dirs sample_world = {}" by (simp add: sample_world_def)
  with read_failure_no_output [OF m, of "''results/reduced''"]
    read_failure_no_output [OF b, of "''results/reduced''"] m b
  show ?thesis by simp
qed

section \<open>The shape of the top-level value\<close>

text \<open>
  C6: a file that holds an object alone and a file that holds the one-element array of
  that object give the same result, summary or exception.
\<close>

theorem single_object_as_list:
  assumes "load_json lib w p = Inr (JDict obj)"
    and "load_json lib w' p' = Inr (JList [JDict obj])"
  shows "snd (reduce_results lib w p out) = snd (reduce_results lib w' p' out')"
  using assms
  by (simp add: reduce_results_snd input_results_def as_results_def)

theorem single_object_as_list_witness:
  "load_json sample_lib sample_world ''results/combined/object_1.json'' = Inr scenario_a_entry \<and>
   load_json sample_lib sample_world ''results/combined/a_1.json''
     = Inr (JList [scenario_a_entry]) \<and>
   snd (reduce_results sample_lib sample_world ''results/combined/object_1.json''
          ''results/reduced'')
     = snd (reduce_results sample_lib sample_world ''results/combined/a_1.json''
          ''results/reduced'')"
proof -
  have o: "load_json sample_lib sample_world ''results/combined/object_1.json''
     = Inr scenario_a_entry"
    by (simp add: load_json_def sample_defs)
  have l: "load_json sample_lib sample_world ''results/combined/a_1.json''
     = Inr (JList [scenario_a_entry])"
    by (simp add: load_json_def sample_defs)
  from single_object_as_list [OF o [unfolded scenario_a_entry_def] l [unfolded scenario_a_entry_def]]
    o l show ?thesis by blast
qed

text \<open>
  C7, as the specification states it, fails when the document \<open>d\<close> is itself a string:
  the file with \<open>d\<close> at top level has \<open>d\<close> decoded once more, the file with the
  serialization of \<open>d\<close> as a string at top level stops at \<open>d\<close>. Here \<open>d\<close> is the string
  \<^verbatim>\<open>[{"matches": [{}]}]\<close>: the first file yields a summary with one finding, the second
  skips the string and yields the empty summary.
\<close>

theorem double_encoded_string_counterexample:
  "load_json sample_lib sample_world ''results/combined/quoted_2.json''
     = Inr (JStr (json_quote nested_text)) \<and>
   json_loads sample_lib (json_quote nested_text) = Inr (JStr nested_text) \<and>
   load_json sample_lib sample_world ''results/combined/quoted_1.json''
     = Inr (JStr nested_text) \<and>
   (\<exists>S. snd (reduce_results sample_lib sample_world ''results/combined/quoted_1.json''
          ''results/reduced'') = Inr S \<and> total_findings S = 1) \<and>
   snd (reduce_results sample_lib sample_world ''results/combined/quoted_2.json''
          ''results/reduced'') = Inr empty_summary"
  by (simp add: reduce_results_snd input_results_def as_results_def load_json_def sample_defs
      outcome_def loop_defs report_defs)

text \<open>
  C7, amended: for a document \<open>d\<close> that is not a string, the file whose top-level value
  is a string that decodes to \<open>d\<close> and the file whose top-level value is \<open>d\<close> give the
  same result; the second decode is applied once, so a \<open>d\<close> that is a string is processed
  as it is.
\<close>

theorem double_encoded_same_summary:
  assumes "json_loads lib s = Inr d"
    and "load_json lib w p = Inr (JStr s)"
    and "load_json lib w' p' = Inr d"
  shows "(\<not> is_str d \<longrightarrow>
            snd (reduce_results lib w p out) = snd (reduce_results lib w' p' out')) \<and>
         (is_str d \<longrightarrow> input_results lib w p = Inr [d])"
  using assms
  by (cases d) (simp_all add: reduce_results_snd input_results_def as_results_def is_str_def)

theorem double_encoded_same_summary_witness:
  "json_loads sample_lib nested_text = Inr (JList [JDict [(''matches'', JList [JDict []])]]) \<and>
   load_json sample_lib sample_world ''results/combined/quoted_1.json''
     = Inr (JStr nested_text) \<and>
   load_json sample_lib sample_world ''results/combined/nested_1.json''
     = Inr (JList [JDict [(''matches'', JList [JDict []])]]) \<and>
   \<not> is_str (JList [JDict [(''matches'', JList [JDict []])]]) \<and>
   snd (reduce_results sample_lib sample_world ''results/combined/quoted_1.json''
          ''results/reduced'')
     = snd (reduce_results sample_lib sample_world ''results/combined/nested_1.json''
          ''results/reduced'') \<and>
   json_loads sample_lib (json_quote nested_text) = Inr (JStr nested_text) \<and>
   load_json sample_lib sample_world ''results/combined/quoted_2.json''
     = Inr (JStr (json_quote nested_text)) \<and>
   is_str (JStr nested_text) \<and>
   input_results sample_lib sample_world ''results/combined/quoted_2.json''
     = Inr [JStr nested_text]"
proof -
  have a: "json_loads sample_lib nested_text
             = Inr (JList [JDict [(''matches'', JList [JDict []])]])"
    by (simp add: sample_defs)
  have b: "load_json sample_lib sample_world ''results/combined/quoted_1.json''
             = Inr (JStr nested_text)"
    by (simp add: load_json_def sample_defs)
  have c: "load_json sample_lib sample_world ''results/combined/nested_1.json''
             = Inr (JList [JDict [(''matches'', JList [JDict []])]])"
    by (simp add: load_json_def sample_defs)
  have d: "\<not> is_str (JList [JDict [(''matches'', JList [JDict []])]])"
    by (simp add: is_str_def)
  have a': "json_loads sample_lib (json_quote nested_text) = Inr (JStr nested_text)"
    by (simp add: sample_defs)
  have b': "load_json sample_lib sample_world ''results/combined/quoted_2.json''
              = Inr (JStr (json_quote nested_text))"
    by (simp add: load_json_def sample_defs)
  have d': "is_str (JStr nested_text)"
    by (simp add: is_str_def)
  from double_encoded_same_summary [OF a b c] double_encoded_same_summary [OF a' b' b]
    a b c d a' b' d'
  show ?thesis by blast
qed

section \<open>Malformed records\<close>







section \<open>The server name\<close>

lemma py_split_nonempty: "py_split sep s \<noteq> []"
  by (induction s) (auto split: list.splits)

lemma hd_py_split: "hd (py_split sep s) = takeWhile (\<lambda>c. c \<noteq> sep) s"
  by (induction s) (auto split: list.splits simp: py_split_nonempty)

lemma server_name_takeWhile:
  "server_name p = takeWhile (\<lambda>c. c \<noteq> CHR ''_'') (basename p)"
  by (simp add: server_name_def hd_py_split)

text \<open>
  C5, as the specification states it, fails: for a file name without an underscore the
  server name is not the stem. At \<^verbatim>\<open>myserver.json\<close> line 22 yields the whole name,
  extension included.
\<close>

theorem server_name_no_underscore_counterexample:
  "server_name ''myserver.json'' = ''myserver.json'' \<and>
   server_name ''myserver.json'' \<noteq> ''myserver''"
  by (simp add: server_name_def basename_def)

text \<open>
  C5, amended: the server name is the part of the base name before its first underscore,
  and for a base name without an underscore it is the whole base name (with its
  extension).
\<close>

theorem server_name_prefix:
  "(basename p = a @ CHR ''_'' # b \<and> CHR ''_'' \<notin> set a \<longrightarrow> server_name p = a) \<and>
   (CHR ''_'' \<notin> set (basename p) \<longrightarrow> server_name p = basename p)"
  by (auto simp: server_name_takeWhile takeWhile_tail)

theorem server_name_prefix_witness:
  "basename ''results/combined/myserver_20240101.json'' = ''myserver'' @ CHR ''_'' # ''20240101.json'' \<and>
   CHR ''_'' \<notin> set ''myserver'' \<and>
   server_name ''results/combined/myserver_20240101.json'' = ''myserver'' \<and>
   CHR ''_'' \<notin> set (basename ''results/combined/myserver.json'') \<and>
   server_name ''results/combined/myserver.json'' = ''myserver.json''"
  using server_name_prefix [of "''results/combined/myserver_20240101.json''" "''myserver''" "''20240101.json''"]
    server_name_prefix [of "''results/combined/myserver.json''"]
  by (simp add: basename_def)

end
